theory Spec2Isabelle
  imports Main
begin

section \<open>The webcam component (WebcamDetection)\<close>

text \<open>
  The component is a React function component. Its state hooks (\<open>isStreaming\<close>,
  \<open>detections\<close>, \<open>isLoading\<close>, \<open>error\<close>, \<open>stream\<close>) and its refs (\<open>videoRef\<close>,
  \<open>canvasRef\<close>) are the fields of one record, together with the parts of the browser
  the code acts on: the camera streams whose tracks are live, the calls of
  \<open>startWebcam\<close> that wait for \<open>getUserMedia\<close>, the \<open>fetch\<close> calls that have not
  settled, the pending \<open>setTimeout\<close> callbacks, the lines written with
  \<open>console.error\<close> and the exceptions no handler caught. Every handler is a function
  from state to state.

  A handler bound to a button runs in the closure of the latest render, so it reads the
  current state. Code that runs later does not: the part of \<open>startWebcam\<close> after its
  \<open>await\<close>, \<open>startDetection\<close> and \<open>sendFrame\<close> all test the \<open>isStreaming\<close> of the
  render in which the Start button was clicked, a constant that \<open>setIsStreaming\<close> never
  changes. That constant is a parameter of these functions; it is stored with every
  waiting call of \<open>startWebcam\<close> and with every timer that \<open>sendFrame\<close> arms.

  The WebSocket that the component opens when it mounts takes no part in the sending of
  frames and is left out, and so is the change of tab that unmounts the component.
\<close>

subsection \<open>Data\<close>

text \<open>Numbers of a response are kept as the text that was received, and the arithmetic
  the code does on them is kept as written (the browser computes it in double
  precision). \<open>Undefined\<close> is what destructuring reads past the end of an array.\<close>

datatype num = Num string | Undefined | Minus num num

text \<open>An item of the \<open>detections\<close> array as \<open>drawDetections\<close> destructures it.
  \<open>bbox\<close> is \<open>None\<close> when it cannot be iterated (it is missing, or the item is not an
  object): the destructuring then throws a TypeError.\<close>

record detection =
  bbox :: "num list option"
  class_name :: string
  confidence :: num

text \<open>A truthy value of \<open>data.detections\<close>: an array, or something that has no
  \<open>forEach\<close>.\<close>

datatype dets = Array "detection list" | NotArray

text \<open>What the 2d context of the overlay canvas has been asked to paint since it was
  last cleared. The label of \<open>fillText\<close> is kept as the class and the confidence it is
  formatted from.\<close>

datatype paint =
  StrokeRect string num num num num
| FillRect string num num num num
| FillText string string num num num

record canvas =
  cwidth :: nat
  cheight :: nat
  painted :: "paint list"

record video =
  paused :: bool
  srcObject :: "nat option"
  videoWidth :: nat
  videoHeight :: nat

text \<open>The body of a \<open>POST /detect/video\<close> call: the encoded frame and \<open>Date.now()\<close>.\<close>

record request =
  frame :: string
  timestamp :: nat

text \<open>A pending \<open>setTimeout(sendFrame, delay)\<close>: its delay in milliseconds and the
  \<open>isStreaming\<close> of the closure it will run.\<close>

record timer =
  delay :: nat
  closure_isStreaming :: bool

datatype js_error = TypeError

record webcam =
  isStreaming :: bool
  detections :: dets
  isLoading :: bool
  error :: "string option"
  stream :: "nat option"
  videoRef :: "video option"
  canvasRef :: "canvas option"
  live :: "nat list"
  awaiting :: "bool list"
  in_flight :: "request list"
  timers :: "timer list"
  console :: "string list"
  uncaught :: "js_error list"

text \<open>How a \<open>fetch\<close> ends, as far as the handlers can tell: the promise rejects
  (no connection, the browser gave up), or a response arrives with its \<open>ok\<close> flag
  (status 200 to 299) and a body that \<open>response.json()\<close> either rejects (\<open>None\<close>)
  or parses. A parsed body is \<open>null\<close>, where reading a field throws, or an object, of
  which only the fields the handler reads are kept.\<close>

datatype 'a json = JNull | JObj 'a

datatype 'a response = NetworkError | Response bool "'a json option"

text \<open>The body of a video response is read through \<open>data.detections\<close> only:
  \<open>None\<close> when the field is absent or falsy, otherwise its value (an empty array is
  truthy in JavaScript).\<close>

type_synonym video_body = "dets option"

text \<open>The component after its first render and mount: both refs point to their elements,
  the video has no source and is paused, the overlay is empty.\<close>

definition mounted :: webcam where
  "mounted =
     \<lparr>isStreaming = False, detections = Array [], isLoading = False, error = None,
      stream = None,
      videoRef = Some \<lparr>paused = True, srcObject = None, videoWidth = 0, videoHeight = 0\<rparr>,
      canvasRef = Some \<lparr>cwidth = 300, cheight = 150, painted = []\<rparr>,
      live = [], awaiting = [], in_flight = [], timers = [], console = [], uncaught = []\<rparr>"

subsection \<open>drawDetections\<close>

definition colour :: "string \<Rightarrow> string" where
  "colour c = (if c = ''pistol'' then ''#ff0000'' else ''#ffff00'')"

definition fill_colour :: "string \<Rightarrow> string" where
  "fill_colour c =
     (if c = ''pistol'' then ''rgba(255, 0, 0, 0.1)'' else ''rgba(255, 255, 0, 0.1)'')"

text \<open>\<open>const [x1, y1, x2, y2] = bbox\<close> reads the first four elements.\<close>

definition element :: "num list \<Rightarrow> nat \<Rightarrow> num" where
  "element b i = (if i < length b then b ! i else Undefined)"

definition draw_one :: "detection \<Rightarrow> num list \<Rightarrow> paint list" where
  "draw_one d b =
     [StrokeRect (colour (class_name d)) (element b 0) (element b 1)
        (Minus (element b 2) (element b 0)) (Minus (element b 3) (element b 1)),
      FillRect (fill_colour (class_name d)) (element b 0) (element b 1)
        (Minus (element b 2) (element b 0)) (Minus (element b 3) (element b 1)),
      FillText (colour (class_name d)) (class_name d) (confidence d)
        (element b 0) (Minus (element b 1) (Num ''5''))]"

text \<open>The body of \<open>forEach\<close>, item by item: what has been painted so far, and the
  exception that ended the loop, if any. An item whose \<open>bbox\<close> cannot be iterated
  throws before anything is painted for it.\<close>

fun paint_items :: "detection list \<Rightarrow> paint list \<Rightarrow> paint list \<times> js_error option" where
  "paint_items [] acc = (acc, None)"
| "paint_items (d # ds) acc =
     (case bbox d of
        None \<Rightarrow> (acc, Some TypeError)
      | Some b \<Rightarrow> paint_items ds (acc @ draw_one d b))"

text \<open>\<open>clearRect\<close> over the whole canvas and the assignment of \<open>canvas.width\<close> both
  leave the bitmap empty; then \<open>detections.forEach\<close> runs, which throws at once for a
  value that is not an array. The result is the state when the function ends and the
  exception it ends with, if any.\<close>

definition drawDetections :: "dets \<Rightarrow> webcam \<Rightarrow> webcam \<times> js_error option" where
  "drawDetections ds s =
     (case canvasRef s of
        None \<Rightarrow> (s, None)
      | Some c \<Rightarrow>
          (case videoRef s of
             None \<Rightarrow> (s, None)
           | Some v \<Rightarrow>
               (case ds of
                  NotArray \<Rightarrow>
                    (s\<lparr>canvasRef :=
                         Some \<lparr>cwidth = videoWidth v, cheight = videoHeight v, painted = []\<rparr>\<rparr>,
                     Some TypeError)
                | Array items \<Rightarrow>
                    (s\<lparr>canvasRef :=
                         Some \<lparr>cwidth = videoWidth v, cheight = videoHeight v,
                               painted = fst (paint_items items [])\<rparr>\<rparr>,
                     snd (paint_items items [])))))"

subsection \<open>stopWebcam\<close>

definition stopWebcam :: "webcam \<Rightarrow> webcam" where
  "stopWebcam s =
     (let s1 = (case stream s of
                  None \<Rightarrow> s
                | Some h \<Rightarrow> s\<lparr>live := removeAll h (live s), stream := None\<rparr>);
          s2 = (case videoRef s1 of
                  None \<Rightarrow> s1
                | Some v \<Rightarrow> s1\<lparr>videoRef := Some (v\<lparr>paused := True, srcObject := None\<rparr>)\<rparr>);
          s3 = s2\<lparr>isStreaming := False, detections := Array []\<rparr>
      in (case canvasRef s3 of
            None \<Rightarrow> s3
          | Some c \<Rightarrow> s3\<lparr>canvasRef := Some (c\<lparr>painted := []\<rparr>)\<rparr>))"

subsection \<open>sendFrame and the timer chain\<close>

text \<open>
  One run of \<open>sendFrame\<close>. \<open>streaming\<close> is the closure's \<open>isStreaming\<close>, \<open>now\<close> is
  \<open>Date.now()\<close> and \<open>frameData\<close> is what \<open>canvas.toDataURL\<close> returns for the frame
  just drawn. \<open>ctx.drawImage(videoRef.current, ...)\<close> throws a TypeError when the ref is
  null. \<open>fetch\<close> returns at once: the call is added to the outstanding ones and its
  handlers run when it settles (\<open>settle\<close> below). The second test of \<open>isStreaming\<close>
  reads the same constant as the first.
\<close>

definition sendFrame :: "bool \<Rightarrow> nat \<Rightarrow> string \<Rightarrow> webcam \<Rightarrow> js_error + webcam" where
  "sendFrame streaming now frameData s =
     (if \<not> streaming then Inr s
      else
        (case videoRef s of
           None \<Rightarrow> Inl TypeError
         | Some v \<Rightarrow>
             (let s1 = s\<lparr>in_flight := in_flight s @ [\<lparr>frame = frameData, timestamp = now\<rparr>]\<rparr>
              in Inr (if streaming
                      then s1\<lparr>timers := timers s1 @ [\<lparr>delay = 100, closure_isStreaming = streaming\<rparr>]\<rparr>
                      else s1))))"

text \<open>\<open>startDetection\<close> creates the closure and runs it once inside \<open>try\<close>.\<close>

definition startDetection :: "bool \<Rightarrow> nat \<Rightarrow> string \<Rightarrow> webcam \<Rightarrow> webcam" where
  "startDetection streaming now frameData s =
     (case sendFrame streaming now frameData s of
        Inr s' \<Rightarrow> s'
      | Inl e \<Rightarrow> s\<lparr>console := console s @ [''Error starting detection:''],
                   error := Some ''Failed to start weapon detection''\<rparr>)"

text \<open>The \<open>i\<close>-th pending timer (oldest first) expires: it leaves the timer list and its
  callback runs. An exception thrown by a timer callback has no handler; the host
  reports it and nothing else happens. With no such timer nothing happens.\<close>

definition fire :: "nat \<Rightarrow> nat \<Rightarrow> string \<Rightarrow> webcam \<Rightarrow> webcam" where
  "fire i now frameData s =
     (if i < length (timers s) then
        (let t = timers s ! i;
             s1 = s\<lparr>timers := take i (timers s) @ drop (Suc i) (timers s)\<rparr>
         in (case sendFrame (closure_isStreaming t) now frameData s1 of
               Inr s2 \<Rightarrow> s2
             | Inl e \<Rightarrow> s1\<lparr>uncaught := uncaught s1 @ [e]\<rparr>))
      else s)"

subsection \<open>The handlers of a detection call\<close>

text \<open>The \<open>.catch\<close> handler.\<close>

definition on_error :: "webcam \<Rightarrow> webcam" where
  "on_error s = s\<lparr>console := console s @ [''Detection error:'']\<rparr>"

text \<open>The second \<open>.then\<close> handler, for a body that is an object: \<open>setDetections\<close>, then
  \<open>drawDetections\<close>; an exception thrown while drawing goes to the \<open>.catch\<close> handler,
  with the detections already stored and the overlay as the drawing left it.\<close>

definition on_data :: "video_body \<Rightarrow> webcam \<Rightarrow> webcam" where
  "on_data b s =
     (case b of
        None \<Rightarrow> s
      | Some ds \<Rightarrow>
          (case drawDetections ds (s\<lparr>detections := ds\<rparr>) of
             (s', None) \<Rightarrow> s'
           | (s', Some e) \<Rightarrow> on_error s'))"

text \<open>The whole chain \<open>.then(response => response.json()).then(...).catch(...)\<close>: a
  rejected \<open>fetch\<close>, a body that is not JSON and a \<open>null\<close> body (reading
  \<open>data.detections\<close> throws) all end in the \<open>.catch\<close> handler. The \<open>ok\<close> flag is
  never read.\<close>

definition on_settled :: "video_body response \<Rightarrow> webcam \<Rightarrow> webcam" where
  "on_settled r s =
     (case r of
        NetworkError \<Rightarrow> on_error s
      | Response ok None \<Rightarrow> on_error s
      | Response ok (Some JNull) \<Rightarrow> on_error s
      | Response ok (Some (JObj b)) \<Rightarrow> on_data b s)"

text \<open>The \<open>i\<close>-th outstanding call (oldest first) settles with \<open>r\<close>. With no such call
  nothing happens.\<close>

definition settle :: "nat \<Rightarrow> video_body response \<Rightarrow> webcam \<Rightarrow> webcam" where
  "settle i r s =
     (if i < length (in_flight s)
      then on_settled r (s\<lparr>in_flight := take i (in_flight s) @ drop (Suc i) (in_flight s)\<rparr>)
      else s)"

subsection \<open>startWebcam\<close>

text \<open>\<open>getUserMedia\<close> resolves with a new stream, whose tracks are live, or rejects.\<close>

datatype media = Granted nat | Denied

text \<open>\<open>startWebcam\<close> up to its \<open>await\<close>. The call now waits for \<open>getUserMedia\<close>, and
  what runs after the \<open>await\<close> will see the \<open>isStreaming\<close> of this render.\<close>

definition startWebcam_call :: "webcam \<Rightarrow> webcam" where
  "startWebcam_call s =
     s\<lparr>isLoading := True, error := None, awaiting := awaiting s @ [isStreaming s]\<rparr>"

text \<open>\<open>startWebcam\<close> after its \<open>await\<close>, for a call whose closure holds \<open>streaming\<close>.
  \<open>startDetection\<close> runs before \<open>setIsStreaming(true)\<close> and in the same closure.\<close>

definition startWebcam_resume :: "bool \<Rightarrow> media \<Rightarrow> nat \<Rightarrow> string \<Rightarrow> webcam \<Rightarrow> webcam" where
  "startWebcam_resume streaming m now frameData s =
     (case m of
        Denied \<Rightarrow>
          s\<lparr>console := console s @ [''Error accessing webcam:''],
            error := Some ''Failed to access webcam. Please ensure camera permissions are granted.'',
            isLoading := False\<rparr>
      | Granted h \<Rightarrow>
          (let s1 = s\<lparr>live := h # live s, stream := Some h\<rparr>;
               s2 = (case videoRef s1 of
                       None \<Rightarrow> s1
                     | Some v \<Rightarrow> s1\<lparr>videoRef := Some (v\<lparr>srcObject := Some h, paused := False\<rparr>)\<rparr>);
               s3 = startDetection streaming now frameData s2
           in s3\<lparr>isStreaming := True, isLoading := False\<rparr>))"

subsection \<open>Runs of the component\<close>

text \<open>
  What can happen to the mounted component. The page shows the Start button only while
  \<open>isStreaming\<close> is false, and disables it while \<open>isLoading\<close> is true; it shows the
  Stop button only while \<open>isStreaming\<close> is true. \<open>getUserMedia\<close> answers the oldest
  waiting call of \<open>startWebcam\<close>, at a time \<open>now\<close> at which the capture canvas
  encodes to \<open>frameData\<close>. A timer expires; an outstanding call settles.
\<close>

datatype event =
  ClickStart
| MediaAnswer media nat string
| ClickStop
| Expire nat nat string
| Settled nat "video_body response"

fun step :: "event \<Rightarrow> webcam \<Rightarrow> webcam" where
  "step ClickStart s =
     (if \<not> isStreaming s \<and> \<not> isLoading s then startWebcam_call s else s)"
| "step (MediaAnswer m now frameData) s =
     (case awaiting s of
        [] \<Rightarrow> s
      | c # cs \<Rightarrow> startWebcam_resume c m now frameData (s\<lparr>awaiting := cs\<rparr>))"
| "step ClickStop s = (if isStreaming s then stopWebcam s else s)"
| "step (Expire i now frameData) s = fire i now frameData s"
| "step (Settled i r) s = settle i r s"

definition run :: "event list \<Rightarrow> webcam \<Rightarrow> webcam" where
  "run es s = fold step es s"

text \<open>The source after one start: Start is clicked on the mounted component and the
  camera is granted as stream 1.\<close>

definition started :: webcam where
  "started = run [ClickStart, MediaAnswer (Granted 1) 1000 ''frame0''] mounted"


text \<open>What a user of the component can see of a source: the stream, the streaming
  flag, the detection list and the overlay canvas.\<close>

definition observable :: "webcam \<Rightarrow> nat option \<times> bool \<times> dets \<times> canvas option" where
  "observable s = (stream s, isStreaming s, detections s, canvasRef s)"

definition overlay_blank :: "webcam \<Rightarrow> bool" where
  "overlay_blank s = (case canvasRef s of None \<Rightarrow> True | Some c \<Rightarrow> painted c = [])"

section \<open>The upload component (App)\<close>

text \<open>
  \<open>App\<close> keeps the statistics and the state of the image upload. \<open>fetchStats\<close> and
  \<open>detectWeapons\<close> are \<open>async\<close>: each is modelled by the part that runs up to its
  \<open>await fetch(...)\<close>, which records the call among the pending ones, and the part that
  runs when the call has settled.
\<close>

datatype tab = Upload | Webcam

text \<open>The body of \<open>GET /stats\<close>, read through four fields; \<open>None\<close> is a missing
  field.\<close>

record stats_data =
  total_detections :: "int option"
  knife_detections :: "int option"
  pistol_detections :: "int option"
  alerts_sent :: "int option"

record weapon =
  weapon_class :: string
  weapon_confidence :: int
  weapon_x :: int
  weapon_y :: int
  weapon_width :: int
  weapon_height :: int

text \<open>The body of \<open>POST /detect-image\<close>, read through three fields.\<close>

record detect_data =
  processed_image :: "string option"
  data_detections :: "weapon list option"
  alert_triggered :: "bool option"

datatype call = GetStats | PostDetectImage string

record app =
  activeTab :: tab
  image_src :: "string option"
  processedImage :: "string option"
  detections_app :: "weapon list"
  loading :: bool
  stats :: "stats_data option"
  alertTriggered :: bool
  pending :: "call list"
  console_app :: "string list"

definition app_init :: app where
  "app_init =
     \<lparr>activeTab = Upload, image_src = None, processedImage = None, detections_app = [],
      loading = False, stats = None, alertTriggered = False, pending = [], console_app = []\<rparr>"

subsection \<open>fetchStats\<close>

definition fetchStats_call :: "app \<Rightarrow> app" where
  "fetchStats_call s = s\<lparr>pending := pending s @ [GetStats]\<rparr>"

text \<open>After the \<open>await\<close>: a rejected \<open>fetch\<close> and a body that \<open>response.json()\<close>
  rejects reach the \<open>catch\<close>; a response that is not \<open>ok\<close> is skipped without a
  word; \<open>setStats(data)\<close> stores whatever was parsed.\<close>

definition fetchStats_resume :: "stats_data response \<Rightarrow> app \<Rightarrow> app" where
  "fetchStats_resume r s =
     (case r of
        NetworkError \<Rightarrow> s\<lparr>console_app := console_app s @ [''Error fetching stats:'']\<rparr>
      | Response ok body \<Rightarrow>
          (if ok then
             (case body of
                None \<Rightarrow> s\<lparr>console_app := console_app s @ [''Error fetching stats:'']\<rparr>
              | Some JNull \<Rightarrow> s\<lparr>stats := None\<rparr>
              | Some (JObj d) \<Rightarrow> s\<lparr>stats := Some d\<rparr>)
           else s))"

text \<open>The counters on the page: the statistics section is rendered only when \<open>stats\<close>
  is set, and each card shows \<open>stats.field || 0\<close>.\<close>

definition or_zero :: "int option \<Rightarrow> int" where
  "or_zero x = (case x of None \<Rightarrow> 0 | Some n \<Rightarrow> if n = 0 then 0 else n)"

definition shown_stats :: "app \<Rightarrow> (int \<times> int \<times> int \<times> int) option" where
  "shown_stats s =
     (case stats s of
        None \<Rightarrow> None
      | Some d \<Rightarrow>
          Some (or_zero (total_detections d), or_zero (knife_detections d),
                or_zero (pistol_detections d), or_zero (alerts_sent d)))"

text \<open>A poll that fails: the request errors, the response is not \<open>ok\<close>, or its body
  is not JSON.\<close>

fun poll_fails :: "stats_data response \<Rightarrow> bool" where
  "poll_fails NetworkError = True"
| "poll_fails (Response ok body) = (\<not> ok \<or> body = None)"

subsection \<open>detectWeapons\<close>

text \<open>Up to the \<open>await\<close>. \<open>!image\<close> holds for \<open>null\<close> and for the empty string.\<close>

definition detectWeapons_call :: "app \<Rightarrow> app" where
  "detectWeapons_call s =
     (case image_src s of
        None \<Rightarrow> s
      | Some img \<Rightarrow>
          (if img = [] then s
           else s\<lparr>loading := True, pending := pending s @ [PostDetectImage img]\<rparr>))"

text \<open>After the \<open>await\<close>; \<open>finally\<close> clears the loading flag on every path. Reading
  \<open>data.processed_image\<close> of a \<open>null\<close> body throws into the \<open>catch\<close>.\<close>

definition detectWeapons_resume :: "detect_data response \<Rightarrow> app \<Rightarrow> app" where
  "detectWeapons_resume r s =
     (let s1 =
        (case r of
           NetworkError \<Rightarrow> s\<lparr>console_app := console_app s @ [''Error during detection:'']\<rparr>
         | Response ok body \<Rightarrow>
             (if ok then
                (case body of
                   None \<Rightarrow> s\<lparr>console_app := console_app s @ [''Error during detection:'']\<rparr>
                 | Some JNull \<Rightarrow> s\<lparr>console_app := console_app s @ [''Error during detection:'']\<rparr>
                 | Some (JObj d) \<Rightarrow>
                     fetchStats_call
                       (s\<lparr>processedImage := processed_image d,
                          detections_app := (case data_detections d of None \<Rightarrow> [] | Some ds \<Rightarrow> ds),
                          alertTriggered := (case alert_triggered d of None \<Rightarrow> False | Some b \<Rightarrow> b)\<rparr>))
              else s\<lparr>console_app := console_app s @ [''Detection failed'']\<rparr>))
      in s1\<lparr>loading := False\<rparr>)"

text \<open>The page after one successful poll.\<close>

definition last_good :: app where
  "last_good =
     fetchStats_resume
       (Response True (Some (JObj \<lparr>total_detections = Some 7, knife_detections = Some 3,
          pistol_detections = Some 4, alerts_sent = None\<rparr>))) app_init"

section \<open>Auxiliary facts\<close>


text \<open>With the closure constant false, \<open>sendFrame\<close> returns at its first test and
  \<open>startDetection\<close> changes nothing.\<close>

lemma startDetection_false: "startDetection False now frameData s = s"
  by (simp add: startDetection_def sendFrame_def)

text \<open>With the closure constant true, in a mounted component, \<open>sendFrame\<close> sends the
  frame and arms its successor: this is the loop the code sets out to run.\<close>

lemma sendFrame_true:
  "videoRef s \<noteq> None \<Longrightarrow>
   sendFrame True now frameData s =
     Inr (s\<lparr>in_flight := in_flight s @ [\<lparr>frame = frameData, timestamp = now\<rparr>],
            timers := timers s @ [\<lparr>delay = 100, closure_isStreaming = True\<rparr>]\<rparr>)"
  by (auto simp add: sendFrame_def Let_def)








lemma started_eq:
  "started =
     \<lparr>isStreaming = True, detections = Array [], isLoading = False, error = None,
      stream = Some 1,
      videoRef = Some \<lparr>paused = False, srcObject = Some 1, videoWidth = 0, videoHeight = 0\<rparr>,
      canvasRef = Some \<lparr>cwidth = 300, cheight = 150, painted = []\<rparr>,
      live = [1], awaiting = [], in_flight = [], timers = [], console = [], uncaught = []\<rparr>"
  by (simp add: started_def run_def mounted_def startWebcam_call_def startWebcam_resume_def
      startDetection_false Let_def)

lemma poll_fails_stats: "poll_fails r \<Longrightarrow> stats (fetchStats_resume r s) = stats s"
  by (cases r) (auto simp add: fetchStats_resume_def)

section \<open>The frame-submission loop\<close>



section \<open>Stopping a source\<close>



text \<open>
  C5: stopping a stopped source changes nothing. A second \<open>stopWebcam\<close> returns the
  state the first one left; on the freshly mounted component it returns the state
  unchanged; and in every state with no stream, the streaming flag off, no detections
  and a blank overlay it leaves the stream, the flag, the detections and the overlay
  canvas as they are. \<open>stopWebcam\<close> has no failing branch.
\<close>

theorem stop_idempotent:
  "stopWebcam (stopWebcam s) = stopWebcam s \<and>
   stopWebcam mounted = mounted \<and>
   (stream s = None \<and> \<not> isStreaming s \<and> detections s = Array [] \<and> overlay_blank s \<longrightarrow>
      observable (stopWebcam s) = observable s)"
proof (intro conjI)
  show "stopWebcam (stopWebcam s) = stopWebcam s"
    by (simp add: stopWebcam_def Let_def split: option.splits)
  show "stopWebcam mounted = mounted"
    by (simp add: stopWebcam_def Let_def mounted_def)
  show "stream s = None \<and> \<not> isStreaming s \<and> detections s = Array [] \<and> overlay_blank s \<longrightarrow>
      observable (stopWebcam s) = observable s"
    by (auto simp add: stopWebcam_def Let_def observable_def overlay_blank_def
        split: option.splits)
qed

text \<open>The source is started, then stopped, then stopped again.\<close>

theorem stop_idempotent_witness:
  "stopWebcam (stopWebcam started) = stopWebcam started \<and>
   stream (stopWebcam started) = None \<and> \<not> isStreaming (stopWebcam started) \<and>
   detections (stopWebcam started) = Array [] \<and> overlay_blank (stopWebcam started) \<and>
   observable (stopWebcam (stopWebcam started)) = observable (stopWebcam started)"
  using stop_idempotent [of "stopWebcam started"]
  by (simp add: started_eq stopWebcam_def Let_def overlay_blank_def)

section \<open>Errors of a detection call\<close>


section \<open>Statistics\<close>

text \<open>
  C7: failed polls freeze the counters. Through any number of polls that fail (the
  request errors, the response is not \<open>ok\<close>, or its body is not JSON), \<open>fetchStats\<close>
  leaves the \<open>stats\<close> state as the last successful poll set it, and the page shows the
  same four counters.
\<close>

theorem failed_polls_freeze_stats:
  "list_all poll_fails rs \<Longrightarrow>
   stats (fold fetchStats_resume rs s) = stats s \<and>
   shown_stats (fold fetchStats_resume rs s) = shown_stats s"
proof (induction rs arbitrary: s)
  case Nil
  then show ?case by simp
next
  case (Cons r rs)
  then have r: "poll_fails r" and rs: "list_all poll_fails rs" by simp_all
  have "stats (fold fetchStats_resume rs (fetchStats_resume r s)) = stats s"
    using Cons.IH [OF rs, of "fetchStats_resume r s"] by (simp add: poll_fails_stats [OF r])
  then show ?case by (simp add: shown_stats_def)
qed

theorem failed_polls_freeze_stats_witness:
  "list_all poll_fails [NetworkError, Response False None, Response True None] \<and>
   stats (fold fetchStats_resume [NetworkError, Response False None, Response True None] last_good) =
     Some \<lparr>total_detections = Some 7, knife_detections = Some 3,
          pistol_detections = Some 4, alerts_sent = None\<rparr> \<and>
   shown_stats (fold fetchStats_resume [NetworkError, Response False None, Response True None] last_good) =
     Some (7, 3, 4, 0)"
  using failed_polls_freeze_stats [of "[NetworkError, Response False None, Response True None]" last_good]
  by (simp add: last_good_def fetchStats_resume_def app_init_def shown_stats_def or_zero_def)

section \<open>One iteration of the loop\<close>

text \<open>
  C8 does not hold of the code: while the source streams, no iteration sends a frame or
  arms a successor. Start is clicked on the mounted component and the camera is
  granted: \<open>startDetection\<close> runs \<open>sendFrame\<close> once, in a closure whose \<open>isStreaming\<close>
  is false, and it returns at its first test. The source is then streaming, with no
  call outstanding and no timer pending, and a later expiry finds nothing to run.
\<close>

theorem started_loop_never_runs:
  "isStreaming started \<and> stream started = Some 1 \<and>
   in_flight started = [] \<and> timers started = [] \<and>
   run [ClickStart, MediaAnswer (Granted 1) 1000 ''frame0'', Expire 0 1100 ''frame1''] mounted =
     started"
proof -
  have a: "run [ClickStart, MediaAnswer (Granted 1) 1000 ''frame0'', Expire 0 1100 ''frame1''] mounted =
      fire 0 1100 ''frame1'' started"
    by (simp add: started_def run_def)
  show ?thesis
    unfolding a by (simp add: started_eq fire_def)
qed

section \<open>Order of results\<close>


section \<open>Detection without an image\<close>

text \<open>
  C10: with no image selected, \<open>detectWeapons\<close> returns at its first line. The state
  it returns is the state it was given: no call is added to the pending ones, and the
  loading flag, the processed image, the detections, the alert flag and the statistics
  are untouched.
\<close>

theorem detectWeapons_without_image:
  "image_src s = None \<Longrightarrow> detectWeapons_call s = s"
  by (simp add: detectWeapons_call_def)

theorem detectWeapons_without_image_witness:
  "image_src last_good = None \<and> detectWeapons_call last_good = last_good \<and>
   pending (detectWeapons_call last_good) = []"
  using detectWeapons_without_image [of last_good]
  by (simp add: last_good_def fetchStats_resume_def app_init_def)

end
